theory Spec2Isabelle
  imports Main
begin

section \<open>Text and character classes\<close>

text \<open>
  A Python \<open>str\<close> is modelled as a \<open>string\<close> whose characters are the code points
  below 256.  The character classes are those of Python's \<open>re\<close> and \<open>str\<close> on
  that range: \<open>\d\<close>, \<open>\w\<close>, \<open>.\<close> (without \<open>DOTALL\<close>) and the white space
  removed by \<open>str.strip()\<close>.
\<close>

definition is_digit :: "char \<Rightarrow> bool" where
  "is_digit c = (let n = (of_char c :: nat) in 48 \<le> n \<and> n \<le> 57)"

definition is_word :: "char \<Rightarrow> bool" where
  "is_word c = (let n = (of_char c :: nat) in
     (48 \<le> n \<and> n \<le> 57) \<or> (65 \<le> n \<and> n \<le> 90) \<or> n = 95 \<or> (97 \<le> n \<and> n \<le> 122)
     \<or> n = 170 \<or> n = 178 \<or> n = 179 \<or> n = 181 \<or> n = 185 \<or> n = 186
     \<or> (188 \<le> n \<and> n \<le> 190) \<or> (192 \<le> n \<and> n \<le> 214)
     \<or> (216 \<le> n \<and> n \<le> 246) \<or> 248 \<le> n)"

definition non_word :: "char \<Rightarrow> bool" where
  "non_word c = (\<not> is_word c)"

definition is_space :: "char \<Rightarrow> bool" where
  "is_space c = (let n = (of_char c :: nat) in
     (9 \<le> n \<and> n \<le> 13) \<or> (28 \<le> n \<and> n \<le> 32) \<or> n = 133 \<or> n = 160)"

definition dot :: "char \<Rightarrow> bool" where
  "dot c = (c \<noteq> CHR 0x0A)"

definition any_char :: "char \<Rightarrow> bool" where
  "any_char c = True"

definition nl :: string where
  "nl = [CHR 0x0A]"

definition strip :: "string \<Rightarrow> string" where
  "strip s = rev (dropWhile is_space (rev (dropWhile is_space s)))"

definition slice :: "string \<Rightarrow> nat \<Rightarrow> nat \<Rightarrow> string" where
  "slice s p q = take (q - p) (drop p s)"

section \<open>Regular expressions with Python's backtracking order\<close>

text \<open>
  The fragment of Python's \<open>re\<close> syntax that the converter uses.  \<open>Many f lo greedy\<close>
  is a repetition of a one-character class: \<open>f+\<close> is \<open>Many f 1 True\<close>, \<open>f*\<close> is
  \<open>Many f 0 True\<close> and the lazy \<open>f+?\<close> is \<open>Many f 1 False\<close>.  \<open>Bol\<close> and \<open>Eol\<close> are
  \<open>^\<close> and \<open>$\<close> without \<open>MULTILINE\<close>, \<open>WordB\<close> is \<open>\b\<close>, \<open>Ahead r\<close> is \<open>(?=r)\<close> and
  \<open>Grp k r\<close> is the k-th capturing group.
\<close>

datatype re =
    Str string
  | Cls "char \<Rightarrow> bool"
  | Many "char \<Rightarrow> bool" nat bool
  | Seq re re
  | Alt re re
  | Grp nat re
  | Bol
  | Eol
  | WordB
  | Ahead re

type_synonym groups = "(nat \<times> string) list"

text \<open>
  \<open>ms r s (p, g)\<close> lists, in the order in which the backtracking matcher tries
  them, the states in which a match of \<open>r\<close> that starts at position \<open>p\<close> of \<open>s\<close> with
  captured groups \<open>g\<close> can end.  The first state of the list is the match Python
  reports: an alternation tries its left branch first, a greedy repetition the
  longest run first, a lazy one the shortest.
\<close>

primrec ms :: "re \<Rightarrow> string \<Rightarrow> nat \<times> groups \<Rightarrow> (nat \<times> groups) list" where
  "ms (Str w) s st =
     (if take (length w) (drop (fst st) s) = w then [(fst st + length w, snd st)] else [])"
| "ms (Cls f) s st =
     (if fst st < length s \<and> f (s ! fst st) then [(Suc (fst st), snd st)] else [])"
| "ms (Many f lo greedy) s st =
     (let n = length (takeWhile f (drop (fst st) s));
          ks = [lo..<Suc n]
      in map (\<lambda>k. (fst st + k, snd st)) (if greedy then rev ks else ks))"
| "ms (Seq a b) s st = concat (map (ms b s) (ms a s st))"
| "ms (Alt a b) s st = ms a s st @ ms b s st"
| "ms (Grp k r) s st =
     map (\<lambda>e. (fst e, (k, slice s (fst st) (fst e)) # snd e)) (ms r s st)"
| "ms Bol s st = (if fst st = 0 then [st] else [])"
| "ms Eol s st =
     (if fst st = length s \<or> (Suc (fst st) = length s \<and> s ! fst st = CHR 0x0A)
      then [st] else [])"
| "ms WordB s st =
     (if (0 < fst st \<and> fst st \<le> length s \<and> is_word (s ! (fst st - 1)))
         \<noteq> (fst st < length s \<and> is_word (s ! fst st))
      then [st] else [])"
| "ms (Ahead r) s st = (if ms r s st = [] then [] else [st])"

fun seqs :: "re list \<Rightarrow> re" where
  "seqs [] = Str []"
| "seqs [r] = r"
| "seqs (r # rs) = Seq r (seqs rs)"

text \<open>\<open>pattern.match(s)\<close> at position \<open>p\<close>: the end of the match and its groups.\<close>

definition re_match_at :: "re \<Rightarrow> string \<Rightarrow> nat \<Rightarrow> (nat \<times> groups) option" where
  "re_match_at r s p = (case ms r s (p, []) of [] \<Rightarrow> None | e # _ \<Rightarrow> Some e)"

definition re_match :: "re \<Rightarrow> string \<Rightarrow> groups option" where
  "re_match r s = map_option snd (re_match_at r s 0)"

text \<open>\<open>m.group(k)\<close>: \<open>None\<close> when the group took no part in the match.\<close>

definition group :: "groups \<Rightarrow> nat \<Rightarrow> string option" where
  "group g k = map_of g k"

text \<open>What an f-string prints for \<open>m.group(k)\<close>.\<close>

definition fmt :: "string option \<Rightarrow> string" where
  "fmt x = (case x of None \<Rightarrow> ''None'' | Some v \<Rightarrow> v)"

text \<open>A group that is \<open>None\<close> or empty is falsy.\<close>

definition truthy :: "string option \<Rightarrow> bool" where
  "truthy x = (case x of None \<Rightarrow> False | Some v \<Rightarrow> v \<noteq> [])"

text \<open>
  \<open>re.sub(r, repl, s)\<close> from position \<open>p\<close> on: the leftmost match is replaced and the
  scan goes on behind it; where nothing matches, the character is copied.  \<open>repl\<close>
  receives \<open>m.group(0)\<close> and the groups.  An empty match is replaced and the scan
  moves one character on, as Python 3.7 and later do.
\<close>

function re_sub_from :: "re \<Rightarrow> (string \<Rightarrow> groups \<Rightarrow> string) \<Rightarrow> string \<Rightarrow> nat \<Rightarrow> string" where
  "re_sub_from r repl s p =
     (if length s < p then []
      else (case re_match_at r s p of
              None \<Rightarrow> (if p < length s then s ! p # re_sub_from r repl s (Suc p) else [])
            | Some e \<Rightarrow>
                (if p < fst e then repl (slice s p (fst e)) (snd e) @ re_sub_from r repl s (fst e)
                 else repl [] (snd e)
                      @ (if p < length s then s ! p # re_sub_from r repl s (Suc p) else []))))"
  by pat_completeness auto
termination
  by (relation "measure (\<lambda>(r, repl, s, p). Suc (length s) - p)") auto

definition re_sub :: "re \<Rightarrow> (string \<Rightarrow> groups \<Rightarrow> string) \<Rightarrow> string \<Rightarrow> string" where
  "re_sub r repl s = re_sub_from r repl s 0"

section \<open>The markup formatter: \<open>parse_markdown\<close>\<close>

text \<open>\<open>html.escape(text, quote=False)\<close>.\<close>

fun html_escape :: "string \<Rightarrow> string" where
  "html_escape [] = []"
| "html_escape (c # cs) =
     (if c = CHR ''&'' then ''&amp;'' else if c = CHR ''<'' then ''&lt;''
      else if c = CHR ''>'' then ''&gt;'' else [c]) @ html_escape cs"

definition backticks :: string where
  "backticks = [CHR 0x60, CHR 0x60, CHR 0x60]"

text \<open>\<^verbatim>\<open>```(.+?)```|\b_(.+?)_\<close>\<close>

definition italic_re :: re where
  "italic_re = Alt (seqs [Str backticks, Grp 1 (Many dot 1 False), Str backticks])
                   (seqs [WordB, Str ''_'', Grp 2 (Many dot 1 False), Str ''_''])"

definition italic_repl :: "string \<Rightarrow> groups \<Rightarrow> string" where
  "italic_repl m0 g =
     (if truthy (group g 2) then ''<em>'' @ fmt (group g 2) @ ''</em>'' else m0)"

text \<open>\<^verbatim>\<open>(```(.+?)```|(\W|^)\*([^*]+)\*(?=\W|$))\<close>, and the same with \<open>~\<close>.\<close>

definition span_re :: "char \<Rightarrow> re" where
  "span_re d = Grp 1 (Alt (seqs [Str backticks, Grp 2 (Many dot 1 False), Str backticks])
                          (seqs [Grp 3 (Alt (Cls non_word) Bol), Str [d],
                                 Grp 4 (Many (\<lambda>c. c \<noteq> d) 1 True), Str [d],
                                 Ahead (Alt (Cls non_word) Eol)]))"

definition span_repl :: "string \<Rightarrow> string \<Rightarrow> groups \<Rightarrow> string" where
  "span_repl tag m0 g =
     (if truthy (group g 4)
      then fmt (group g 3) @ ''<'' @ tag @ ''>'' @ fmt (group g 4) @ ''</'' @ tag @ ''>''
      else m0)"

text \<open>\<^verbatim>\<open>```(.+?)```\<close> with \<open>DOTALL\<close>, replaced by \<^verbatim>\<open><pre>\1</pre>\<close>.\<close>

definition mono_re :: re where
  "mono_re = seqs [Str backticks, Grp 1 (Many any_char 1 False), Str backticks]"

definition mono_repl :: "string \<Rightarrow> groups \<Rightarrow> string" where
  "mono_repl m0 g = ''<pre>'' @ fmt (group g 1) @ ''</pre>''"

fun br :: "string \<Rightarrow> string" where
  "br [] = []"
| "br (c # cs) = (if c = CHR 0x0A then ''<br>'' else [c]) @ br cs"

definition parse_markdown :: "string \<Rightarrow> bool \<Rightarrow> string" where
  "parse_markdown text test =
     (let text = (if \<not> test then html_escape text else text);
          text = re_sub italic_re italic_repl text;
          text = re_sub (span_re (CHR ''*'')) (span_repl ''strong'') text;
          text = re_sub (span_re (CHR ''~'')) (span_repl ''del'') text;
          text = re_sub mono_re mono_repl text
      in if \<not> test then br text else text)"

text \<open>
  The test that both call sites make, \<open>content != parse_markdown(content, True)\<close>:
  the text has markup when the formatter in detection mode changes it.
\<close>

definition has_markup :: "string \<Rightarrow> bool" where
  "has_markup text = (text \<noteq> parse_markdown text True)"

section \<open>The transcript: \<open>backup_messages\<close>\<close>

text \<open>
  \<^verbatim>\<open>(\d\d)/(\d\d)/(\d\d), (\d\d):(\d\d) - ([^:]+): (.+)\<close> is \<open>pattern\<close>, the grammar
  of a message header, and \<^verbatim>\<open>(\d\d)/(\d\d)/(\d\d), (\d\d):(\d\d) - .+\<close> is
  \<open>skip_pattern\<close>: a line that matches it and not \<open>pattern\<close> is a system message.
\<close>

definition dd :: re where
  "dd = Seq (Cls is_digit) (Cls is_digit)"

definition stamp_re :: re where
  "stamp_re = seqs [Grp 1 dd, Str ''/'', Grp 2 dd, Str ''/'', Grp 3 dd, Str '', '',
                    Grp 4 dd, Str '':'', Grp 5 dd, Str '' - '']"

definition pattern :: re where
  "pattern = seqs [stamp_re, Grp 6 (Many (\<lambda>c. c \<noteq> CHR '':'') 1 True), Str '': '',
                   Grp 7 (Many dot 1 True)]"

definition skip_pattern :: re where
  "skip_pattern = seqs [stamp_re, Many dot 1 True]"

text \<open>\<^verbatim>\<open>(.*)(IMG-.+.jpg) \(file attached\)\<close>\<close>

definition img_re :: re where
  "img_re = seqs [Grp 1 (Many dot 0 True),
                  Grp 2 (seqs [Str ''IMG-'', Many dot 1 True, Cls dot, Str ''jpg'']),
                  Str '' (file attached)'']"

definition matches :: "re \<Rightarrow> string \<Rightarrow> bool" where
  "matches r s = (re_match r s \<noteq> None)"

text \<open>
  The three kinds of transcript line, as the branches of the loop tell them apart.
\<close>

datatype line_class = MessageHeader | SystemNotice | Continuation

definition classify :: "string \<Rightarrow> line_class" where
  "classify line =
     (if matches pattern line then MessageHeader
      else if matches skip_pattern line then SystemNotice else Continuation)"

datatype error = FileNotFoundError | KeyError | ValueError | EOFError | OperationalError

record datetime =
  year :: nat
  month :: nat
  day :: nat
  hour :: nat
  minute :: nat

record user_info =
  info_user_id :: string
  info_avatar :: string
  info_color :: "string option"

record message =
  msg_id :: string
  user_id :: string
  name :: string
  avatar :: string
  color :: "string option"
  created_timestamp :: datetime
  message_type :: string
  content :: "string option"
  format :: "string option"
  formatted_content :: "string option"
  attachments :: "string list option"

text \<open>
  What \<open>backup_messages\<close> takes from outside: the users of the chat
  (\<open>group_users\<close>), whether \<open>shutil.copyfile\<close> finds the file that a marker
  names in the directory of the transcript (\<open>source_exists\<close>), what
  \<open>ntpath.basename\<close> makes of that path (\<open>basename\<close>), and the identifiers that
  \<open>shortuuid.uuid()\<close> hands out, by the number of messages made so far.  The
  directory of the attachments and the copies in it are not part of the model.
\<close>

record env =
  group_users :: "string \<rightharpoonup> user_info"
  source_exists :: "string \<Rightarrow> bool"
  basename :: "string \<Rightarrow> string"
  uuid :: "nat \<Rightarrow> string"

definition int_of :: "string \<Rightarrow> nat" where
  "int_of ds = foldl (\<lambda>n c. 10 * n + (of_char c - 48)) 0 ds"

definition days_in_month :: "nat \<Rightarrow> nat \<Rightarrow> nat" where
  "days_in_month y m =
     (if m = 2 then (if y mod 4 = 0 \<and> (y mod 100 \<noteq> 0 \<or> y mod 400 = 0) then 29 else 28)
      else if m = 4 \<or> m = 6 \<or> m = 9 \<or> m = 11 then 30 else 31)"

text \<open>\<open>datetime(year, month, day, hour, minute)\<close> raises \<open>ValueError\<close> out of range.\<close>

definition mk_datetime :: "nat \<Rightarrow> nat \<Rightarrow> nat \<Rightarrow> nat \<Rightarrow> nat \<Rightarrow> error + datetime" where
  "mk_datetime y m d h mi =
     (if 1 \<le> y \<and> y \<le> 9999 \<and> 1 \<le> m \<and> m \<le> 12 \<and> 1 \<le> d \<and> d \<le> days_in_month y m
         \<and> h \<le> 23 \<and> mi \<le> 59
      then Inr \<lparr>year = y, month = m, day = d, hour = h, minute = mi\<rparr>
      else Inl ValueError)"

definition file_attached :: string where
  "file_attached = '' (file attached)''"

text \<open>
  Lines 213 to 227: the attachment marker of a body.  The result is the file the
  marker names (if there is a marker), the content that is left, and whether the
  next line has been dealt with (\<open>skip\<close>).  \<open>nxt\<close> is \<open>lines[i + 1]\<close>, if there is one.
\<close>

definition scan_attachment :: "string \<Rightarrow> string option \<Rightarrow> string option \<times> string \<times> bool" where
  "scan_attachment body nxt =
     (case re_match img_re body of
        Some g \<Rightarrow>
          (case nxt of
             Some n \<Rightarrow>
               if \<not> matches pattern n \<and> \<not> matches skip_pattern n
               then (Some (fmt (group g 2)), fmt (group g 1) @ n, True)
               else (Some (fmt (group g 2)), fmt (group g 1), False)
           | None \<Rightarrow> (Some (fmt (group g 2)), fmt (group g 1), False))
      | None \<Rightarrow>
          if drop (length body - 16) body = file_attached
          then (Some (take (length body - 16) body), [],
                (case nxt of
                   Some n \<Rightarrow> strip n = strip (take (length body - 16) body)
                 | None \<Rightarrow> False))
          else (None, body, False))"

text \<open>Lines 235 to 240: the format of a content, and its formatted form.\<close>

definition detect :: "string \<Rightarrow> (string \<times> string) option" where
  "detect c =
     (if has_markup c
      then Some (''whatsapp_markdown'', parse_markdown c False) else None)"

text \<open>
  Lines 197 to 254: the message of a header line whose match has the groups \<open>g\<close>,
  and the \<open>skip\<close> flag it leaves.  \<open>k\<close> is the number of messages made before.  The
  errors come in the order in which the source raises them.
\<close>

definition deleted :: "groups \<Rightarrow> bool" where
  "deleted g = (fmt (group g 7) = ''This message was deleted''
                \<or> fmt (group g 7) = ''You deleted this message'')"

definition body_of :: "groups \<Rightarrow> string" where
  "body_of g = (if deleted g then [] else fmt (group g 7))"

definition header_message ::
  "env \<Rightarrow> string \<Rightarrow> groups \<Rightarrow> string option \<Rightarrow> nat \<Rightarrow> error + message \<times> bool" where
  "header_message e chat_id g nxt k =
     (let nm = fmt (group g 6);
          (att, c, sk) = scan_attachment (body_of g) nxt
      in if (case att of Some a \<Rightarrow> \<not> source_exists e a | None \<Rightarrow> False) then Inl FileNotFoundError
         else
           (let fm = (if strip c \<noteq> [] then detect (strip c) else None)
            in case group_users e nm of
                 None \<Rightarrow> Inl KeyError
               | Some u \<Rightarrow>
                   (case mk_datetime (int_of (''20'' @ fmt (group g 3))) (int_of (fmt (group g 2)))
                           (int_of (fmt (group g 1))) (int_of (fmt (group g 4)))
                           (int_of (fmt (group g 5))) of
                      Inl err \<Rightarrow> Inl err
                    | Inr t \<Rightarrow>
                        Inr (\<lparr>msg_id = uuid e k,
                              user_id = info_user_id u,
                              name = nm,
                              avatar = info_avatar u,
                              color = info_color u,
                              created_timestamp = t,
                              message_type = (if deleted g then ''redacted'' else ''default''),
                              content = (if strip c \<noteq> [] then Some (strip c) else None),
                              format = map_option fst fm,
                              formatted_content = map_option snd fm,
                              attachments =
                                map_option (\<lambda>a. [chat_id @ ''/'' @ basename e a]) att\<rparr>,
                             sk))))"

text \<open>
  Lines 255 to 269: a line that is no header, when there is a message before it.
  \<open>m\<close> is \<open>messages[-1]\<close>.
\<close>

definition continue_message :: "message \<Rightarrow> string \<Rightarrow> message" where
  "continue_message m line =
     (if truthy (content m) \<and> \<not> matches skip_pattern line then
        (let new_content = fmt (content m) @ [CHR 0x0A] @ strip line;
             m = (case detect new_content of
                    Some (f, fc) \<Rightarrow> m\<lparr>format := Some f, formatted_content := Some fc\<rparr>
                  | None \<Rightarrow> m)
         in m\<lparr>content := Some new_content\<rparr>)
      else if \<not> matches skip_pattern line then
        (let new_content = strip line;
             m = (case detect new_content of
                    Some (f, fc) \<Rightarrow> m\<lparr>format := Some f, formatted_content := Some fc\<rparr>
                  | None \<Rightarrow> m)
         in m\<lparr>content := Some new_content\<rparr>)
      else m)"

text \<open>
  The loop over the lines, with the \<open>skip\<close> flag and the messages made so far as
  its state.  The rest of the list stands for the index: its head is
  \<open>lines[i + 1]\<close>.
\<close>

record state =
  skip :: bool
  messages :: "message list"

definition peek :: "string list \<Rightarrow> string option" where
  "peek rest = (case rest of [] \<Rightarrow> None | n # _ \<Rightarrow> Some n)"

fun loop :: "env \<Rightarrow> string \<Rightarrow> string list \<Rightarrow> state \<Rightarrow> error + state" where
  "loop e chat_id [] st = Inr st"
| "loop e chat_id (line # rest) st =
     (if skip st then loop e chat_id rest (st\<lparr>skip := False\<rparr>)
      else
        (case re_match pattern line of
           Some g \<Rightarrow>
             (case header_message e chat_id g (peek rest) (length (messages st)) of
                Inl err \<Rightarrow> Inl err
              | Inr (m, sk) \<Rightarrow> loop e chat_id rest \<lparr>skip = sk, messages = messages st @ [m]\<rparr>)
         | None \<Rightarrow>
             (if messages st \<noteq> []
              then loop e chat_id rest
                     (st\<lparr>messages := butlast (messages st)
                                       @ [continue_message (last (messages st)) line]\<rparr>)
              else loop e chat_id rest st)))"

definition backup_messages :: "env \<Rightarrow> string \<Rightarrow> string list \<Rightarrow> error + message list" where
  "backup_messages e chat_id lines =
     (case loop e chat_id lines \<lparr>skip = False, messages = []\<rparr> of
        Inl err \<Rightarrow> Inl err
      | Inr st \<Rightarrow> Inr (messages st))"

text \<open>
  What the loop does with each line, told from the lines alone: a header that the
  loop reaches makes a message (\<open>Emitted\<close>); the line after an \<open>IMG-\<close> marker that
  was added to the content is a \<open>Caption\<close>; the line after a plain marker that
  repeats the file name is an \<open>Echo\<close>; every other line is \<open>Other\<close>.  \<open>pending\<close> is
  the fate that a header fixes for the line after it, that is, why \<open>skip\<close> is set.
\<close>

datatype fate = Emitted | Caption | Echo | Other

definition pending :: "string \<Rightarrow> string option \<Rightarrow> fate option" where
  "pending body nxt =
     (if snd (snd (scan_attachment body nxt))
      then Some (if re_match img_re body \<noteq> None then Caption else Echo) else None)"

fun fates :: "fate option \<Rightarrow> string list \<Rightarrow> fate list" where
  "fates p [] = []"
| "fates p (line # rest) =
     (case p of
        Some f \<Rightarrow> f # fates None rest
      | None \<Rightarrow>
          (case re_match pattern line of
             Some g \<Rightarrow> Emitted # fates (pending (body_of g) (peek rest)) rest
           | None \<Rightarrow> Other # fates None rest))"

text \<open>The file that the marker of a body names, if the body has a marker.\<close>

definition marker_file :: "string \<Rightarrow> string option" where
  "marker_file body = fst (scan_attachment body None)"

text \<open>The counts that the properties of the loop speak of.\<close>

definition header_count :: "string list \<Rightarrow> nat" where
  "header_count lines = length (filter (\<lambda>l. classify l = MessageHeader) lines)"

definition merged_captions :: "string list \<Rightarrow> nat" where
  "merged_captions lines = length (filter (\<lambda>f. f = Caption) (fates None lines))"

definition echoed_headers :: "string list \<Rightarrow> nat" where
  "echoed_headers lines =
     length (filter (\<lambda>lf. snd lf = Echo \<and> classify (fst lf) = MessageHeader)
                    (zip lines (fates None lines)))"


section \<open>The users of a chat: \<open>backup_users\<close>\<close>

text \<open>
  \<open>backup_users\<close> asks on the terminal.  The answers are a list of strings, one
  for each call of \<open>input()\<close>; when the list is used up, \<open>input()\<close> raises
  \<open>EOFError\<close>.  What is printed is not modelled.
\<close>

definition lower_char :: "char \<Rightarrow> char" where
  "lower_char c = (let n = (of_char c :: nat) in
     if (65 \<le> n \<and> n \<le> 90) \<or> (192 \<le> n \<and> n \<le> 222 \<and> n \<noteq> 215) then char_of (n + 32) else c)"

definition lower :: "string \<Rightarrow> string" where
  "lower s = map lower_char s"

text \<open>\<open>pattern.search(s)\<close>: the match at the first position that has one.\<close>

definition re_search :: "re \<Rightarrow> string \<Rightarrow> (nat \<times> groups) option" where
  "re_search r s =
     (case filter (\<lambda>p. re_match_at r s p \<noteq> None) [0..<Suc (length s)] of
        [] \<Rightarrow> None
      | p # _ \<Rightarrow> re_match_at r s p)"

definition is_hex :: "char \<Rightarrow> bool" where
  "is_hex c = (let n = (of_char c :: nat) in
     (48 \<le> n \<and> n \<le> 57) \<or> (97 \<le> n \<and> n \<le> 102) \<or> (65 \<le> n \<and> n \<le> 70))"

text \<open>\<^verbatim>\<open>^#(?:[0-9a-fA-F]{3}){1,2}$\<close>: the greedy \<open>{1,2}\<close> tries two rounds first.\<close>

definition hex3 :: re where
  "hex3 = seqs [Cls is_hex, Cls is_hex, Cls is_hex]"

definition color_re :: re where
  "color_re = seqs [Bol, Str ''#'', Alt (Seq hex3 hex3) hex3, Eol]"

definition validate_color :: "string \<Rightarrow> bool" where
  "validate_color c = (\<not> \<not> re_search color_re c \<noteq> None)"

text \<open>\<^verbatim>\<open>^\d\d/\d\d/\d\d, \d\d:\d\d - ([^:]+): .+\<close>\<close>

definition user_regex :: re where
  "user_regex = seqs [Bol, dd, Str ''/'', dd, Str ''/'', dd, Str '', '', dd, Str '':'', dd,
                      Str '' - '', Grp 1 (Many (\<lambda>c. c \<noteq> CHR '':'') 1 True), Str '': '',
                      Many dot 1 True]"

text \<open>
  The names of the senders.  The source collects them in a \<open>set\<close>, whose order of
  iteration Python leaves open; here they come in the order of their first line.
\<close>

definition user_names :: "string list \<Rightarrow> string list" where
  "user_names lines =
     remdups (List.map_filter (\<lambda>l. map_option (\<lambda>g. fmt (group g 1)) (re_match user_regex l)) lines)"

text \<open>An entry of \<open>info["users"]\<close>, and an entry of \<open>new_users\<close>.\<close>

record hint =
  hint_user_id :: string
  hint_avatar :: "string option"
  hint_color :: "string option"

record new_user =
  nu_name :: string
  nu_avatar :: string
  nu_color :: "string option"

text \<open>
  What \<open>backup_users\<close> takes from outside: \<open>info["users"]\<close> (empty without an
  \<open>info.json\<close>), the paths at which there is a file to copy, the extension that
  \<open>os.path.splitext\<close> finds, and the identifiers of \<open>shortuuid.uuid()\<close>.
\<close>

record uenv =
  info_users :: "string \<rightharpoonup> hint"
  path_exists :: "string \<Rightarrow> bool"
  splitext :: "string \<Rightarrow> string"
  user_uuid :: "nat \<Rightarrow> string"

text \<open>
  The state of the loop over the names: the answers not yet read, \<open>existing_ids\<close>,
  \<open>new_users\<close>, \<open>group_users\<close> (here \<open>grouped_users\<close>) and the number of identifiers
  drawn.
\<close>

record ustate =
  inputs :: "string list"
  existing_ids :: "string set"
  new_users :: "string \<rightharpoonup> new_user"
  grouped_users :: "string \<rightharpoonup> user_info"
  drawn :: nat

text \<open>Lines 117 to 126: skip a user known from an earlier chat?\<close>

fun ask_skip :: "string list \<Rightarrow> error + bool \<times> string list" where
  "ask_skip [] = Inl EOFError"
| "ask_skip (x # xs) =
     (let response = lower (strip x) @ '' ''
      in if response = ''y '' then Inr (True, xs)
         else if response = ''n '' then Inr (False, xs)
         else ask_skip xs)"

text \<open>Lines 94 to 114: a user that \<open>info.json\<close> names.\<close>

definition take_hint :: "uenv \<Rightarrow> (string \<rightharpoonup> user_info) \<Rightarrow> string \<Rightarrow> hint \<Rightarrow> ustate \<Rightarrow> error + ustate" where
  "take_hint e existing_users nm h st =
     (case existing_users nm of
        None \<Rightarrow>
          (case hint_avatar h of
             None \<Rightarrow>
               if \<not> path_exists e ''default.svg'' then Inl FileNotFoundError
               else Inr (st\<lparr>existing_ids := insert (hint_user_id h) (existing_ids st),
                           new_users := (new_users st)(hint_user_id h \<mapsto>
                             \<lparr>nu_name = nm, nu_avatar = ''default.svg'', nu_color = hint_color h\<rparr>),
                           grouped_users := (grouped_users st)(nm \<mapsto>
                             \<lparr>info_user_id = hint_user_id h, info_avatar = ''default.svg'',
                              info_color = hint_color h\<rparr>)\<rparr>)
           | Some a \<Rightarrow>
               (let target = user_uuid e (drawn st) @ splitext e a
                in if \<not> path_exists e (''whatsapp_exports/'' @ a) then Inl FileNotFoundError
                   else Inr (st\<lparr>existing_ids := insert (hint_user_id h) (existing_ids st),
                               new_users := (new_users st)(hint_user_id h \<mapsto>
                                 \<lparr>nu_name = nm, nu_avatar = target, nu_color = hint_color h\<rparr>),
                               grouped_users := (grouped_users st)(nm \<mapsto>
                                 \<lparr>info_user_id = hint_user_id h, info_avatar = target,
                                  info_color = hint_color h\<rparr>),
                               drawn := Suc (drawn st)\<rparr>)))
      | Some u \<Rightarrow>
          Inr (st\<lparr>existing_ids := insert (hint_user_id h) (existing_ids st),
                   grouped_users := (grouped_users st)(nm \<mapsto>
                     \<lparr>info_user_id = hint_user_id h, info_avatar = info_avatar u,
                      info_color = hint_color h\<rparr>)\<rparr>))"

text \<open>
  Lines 93 to 135, the loop \<open>while len(user_id) == 0\<close>: the result is the phone
  number that was entered, or \<open>None\<close> when the user is skipped.  A number that is in
  \<open>existing_ids\<close> is set back to the empty string, and the loop asks again.
\<close>

function ask_user_id ::
  "uenv \<Rightarrow> (string \<rightharpoonup> user_info) \<Rightarrow> string \<Rightarrow> ustate \<Rightarrow> error + string option \<times> ustate" where
  "ask_user_id e existing_users nm st =
     (case info_users e nm of
        Some h \<Rightarrow>
          (case take_hint e existing_users nm h st of
             Inl err \<Rightarrow> Inl err
           | Inr st' \<Rightarrow> Inr (None, st'))
      | None \<Rightarrow>
          (case (case existing_users nm of
                   Some u \<Rightarrow> ask_skip (inputs st)
                 | None \<Rightarrow> Inr (False, inputs st)) of
             Inl err \<Rightarrow> Inl err
           | Inr (sk, ins) \<Rightarrow>
               if sk then Inr (None, st\<lparr>inputs := ins,
                                        grouped_users := (grouped_users st)(nm := existing_users nm)\<rparr>)
               else
                 (case ins of
                    [] \<Rightarrow> Inl EOFError
                  | x # rest \<Rightarrow>
                      if strip x \<in> existing_ids st \<or> strip x = []
                      then ask_user_id e existing_users nm (st\<lparr>inputs := rest\<rparr>)
                      else Inr (Some (strip x), st\<lparr>inputs := rest\<rparr>))))"
  by pat_completeness auto
termination
proof (relation "measure (\<lambda>(e, existing_users, nm, st). length (inputs st))")
  show "wf (measure (\<lambda>(e, existing_users, nm, st). length (inputs st)))"
    by simp
next
  fix e :: uenv and existing_users :: "string \<rightharpoonup> user_info" and nm :: string and st :: ustate
    and x :: "bool \<times> string list" and sk :: bool and ins :: "string list"
    and a :: string and rest :: "string list"
  assume r: "(case existing_users nm of None \<Rightarrow> Inr (False, inputs st)
              | Some u \<Rightarrow> ask_skip (inputs st)) = Inr x"
    and x: "(sk, ins) = x" and ins: "ins = a # rest"
  have shorter: "length ys < length xs" if "ask_skip xs = Inr (b, ys)" for xs b ys
    using that by (induction xs) (auto simp: Let_def split: if_splits)
  have "length ins \<le> length (inputs st)"
    using r x shorter[of "inputs st" sk ins]
    by (auto split: option.splits)
  then show "((e, existing_users, nm, st\<lparr>inputs := rest\<rparr>), e, existing_users, nm, st)
             \<in> measure (\<lambda>(e, existing_users, nm, st). length (inputs st))"
    using ins by simp
qed

text \<open>Lines 143 to 146: the avatar, asked for until the file is there.\<close>

fun ask_avatar :: "uenv \<Rightarrow> string list \<Rightarrow> error + string \<times> string list" where
  "ask_avatar e [] = Inl EOFError"
| "ask_avatar e (x # xs) =
     (if strip x = [] \<or> \<not> path_exists e (strip x) then ask_avatar e xs
      else Inr (strip x, xs))"

text \<open>Lines 154 to 161: the colour; an empty answer is the default, \<open>None\<close>.\<close>

fun ask_color :: "string list \<Rightarrow> error + string option \<times> string list" where
  "ask_color [] = Inl EOFError"
| "ask_color (x # xs) =
     (let c = lower (strip x)
      in if c = [] then Inr (None, xs)
         else if validate_color c then Inr (Some c, xs)
         else ask_color xs)"

text \<open>Lines 86 to 175: the loop over the names.\<close>

fun users_loop :: "uenv \<Rightarrow> (string \<rightharpoonup> user_info) \<Rightarrow> string list \<Rightarrow> ustate \<Rightarrow> error + ustate" where
  "users_loop e existing_users [] st = Inr st"
| "users_loop e existing_users (nm # rest) st =
     (case ask_user_id e existing_users nm st of
        Inl err \<Rightarrow> Inl err
      | Inr (None, st1) \<Rightarrow> users_loop e existing_users rest st1
      | Inr (Some uid, st1) \<Rightarrow>
          (case ask_avatar e (inputs st1) of
             Inl err \<Rightarrow> Inl err
           | Inr (a, ins) \<Rightarrow>
               (case ask_color ins of
                  Inl err \<Rightarrow> Inl err
                | Inr (col, ins') \<Rightarrow>
                    (let target = user_uuid e (drawn st1) @ splitext e a
                     in users_loop e existing_users rest
                          (st1\<lparr>inputs := ins',
                               existing_ids := insert uid (existing_ids st1),
                               new_users := (new_users st1)(uid \<mapsto>
                                 \<lparr>nu_name = nm, nu_avatar = target, nu_color = col\<rparr>),
                               grouped_users := (grouped_users st1)(nm \<mapsto>
                                 \<lparr>info_user_id = uid, info_avatar = target, info_color = col\<rparr>),
                               drawn := Suc (drawn st1)\<rparr>)))))"

text \<open>
  \<open>backup_users\<close>: \<open>new_users\<close> and \<open>group_users\<close>, and with them the set
  \<open>existing_ids\<close>, which the caller shares, and the answers that are left.
\<close>

definition backup_users ::
  "uenv \<Rightarrow> (string \<rightharpoonup> user_info) \<Rightarrow> string set \<Rightarrow> string list \<Rightarrow> string list
   \<Rightarrow> error + ustate" where
  "backup_users e existing_users ids lines answers =
     users_loop e existing_users (user_names lines)
       \<lparr>inputs = answers, existing_ids = ids, new_users = Map.empty, grouped_users = Map.empty,
        drawn = 0\<rparr>"

section \<open>The search index: \<open>index_messages\<close>\<close>

text \<open>
  The database is a map from the names of its tables; a table has its columns and
  its rows, and a row gives a value for each column.
\<close>

datatype sql = Null | Text string | Stamp datetime

type_synonym row = "string \<Rightarrow> sql"

record table =
  columns :: "string list"
  rows :: "row list"

type_synonym db = "string \<rightharpoonup> table"

definition text_or_null :: "string option \<Rightarrow> sql" where
  "text_or_null x = (case x of None \<Rightarrow> Null | Some v \<Rightarrow> Text v)"

text \<open>\<open>json.dumps\<close> of a list of one string that needs no escaping.\<close>

definition json_list :: "string list \<Rightarrow> string" where
  "json_list xs = ''['' @ concat (map (\<lambda>x. [CHR 0x22] @ x @ [CHR 0x22]) xs) @ '']''"

text \<open>Lines 387 to 406: the row that \<open>initialize_backup\<close> inserts for a message.\<close>

definition message_row :: "string \<Rightarrow> message \<Rightarrow> row" where
  "message_row chat_id m c =
     (if c = ''id'' then Text (msg_id m)
      else if c = ''chat'' then Text chat_id
      else if c = ''user_id'' then Text (user_id m)
      else if c = ''name'' then Text (name m)
      else if c = ''avatar'' then Text (avatar m)
      else if c = ''color'' then text_or_null (color m)
      else if c = ''created_timestamp'' then Stamp (created_timestamp m)
      else if c = ''message_type'' then Text (message_type m)
      else if c = ''content'' then text_or_null (content m)
      else if c = ''format'' then text_or_null (format m)
      else if c = ''formatted_content'' then text_or_null (formatted_content m)
      else if c = ''attachments'' then text_or_null (map_option json_list (attachments m))
      else Null)"

definition messages_columns :: "string list" where
  "messages_columns = [''id'', ''chat'', ''user_id'', ''name'', ''avatar'', ''color'',
     ''created_timestamp'', ''edited_timestamp'', ''reference'', ''message_type'', ''content'',
     ''format'', ''formatted_content'', ''attachments'']"

text \<open>\<open>DROP TABLE IF EXISTS t\<close>\<close>

definition drop_table_if_exists :: "string \<Rightarrow> db \<Rightarrow> db" where
  "drop_table_if_exists t d = d(t := None)"

text \<open>\<open>CREATE VIRTUAL TABLE t USING FTS5(cols)\<close> fails when there is a table \<open>t\<close>.\<close>

definition create_fts5 :: "string \<Rightarrow> string list \<Rightarrow> db \<Rightarrow> error + db" where
  "create_fts5 t cols d =
     (case d t of
        Some _ \<Rightarrow> Inl OperationalError
      | None \<Rightarrow> Inr (d(t \<mapsto> \<lparr>columns = cols, rows = []\<rparr>)))"

text \<open>
  \<open>INSERT INTO t SELECT cols FROM src\<close>: both tables must be there, \<open>src\<close> must
  have the columns, and \<open>t\<close> as many columns as are selected; the values go into
  the columns of \<open>t\<close> by position.
\<close>

definition insert_select :: "string \<Rightarrow> string list \<Rightarrow> string \<Rightarrow> db \<Rightarrow> error + db" where
  "insert_select t cols src d =
     (case (d t, d src) of
        (Some tt, Some st) \<Rightarrow>
          if set cols \<subseteq> set (columns st) \<and> length (columns tt) = length cols
          then Inr (d(t \<mapsto> tt\<lparr>rows := rows tt
                        @ map (\<lambda>r c. (case map_of (zip (columns tt) cols) c of
                                          Some c' \<Rightarrow> r c' | None \<Rightarrow> Null)) (rows st)\<rparr>))
          else Inl OperationalError
      | _ \<Rightarrow> Inl OperationalError)"

text \<open>\<open>index_messages\<close> of the WhatsApp converter.\<close>

definition index_messages :: "db \<Rightarrow> error + db" where
  "index_messages d =
     (case create_fts5 ''message_search'' [''id'', ''content'']
             (drop_table_if_exists ''message_search'' d) of
        Inl err \<Rightarrow> Inl err
      | Inr d' \<Rightarrow> insert_select ''message_search'' [''id'', ''content''] ''messages'' d')"

text \<open>\<open>index_messages\<close> of the Matrix converter, whose index has the edits too.\<close>

definition index_messages_matrix :: "db \<Rightarrow> error + db" where
  "index_messages_matrix d =
     (case create_fts5 ''message_search'' [''id'', ''content'', ''edits'']
             (drop_table_if_exists ''message_search'' d) of
        Inl err \<Rightarrow> Inl err
      | Inr d' \<Rightarrow> insert_select ''message_search'' [''id'', ''content'', ''edits''] ''messages'' d')"

text \<open>
  A text can be found through the index when a row of \<open>message_search\<close> has it in
  one of the columns of the index.
\<close>

definition searchable :: "db \<Rightarrow> string \<Rightarrow> bool" where
  "searchable d txt =
     (case d ''message_search'' of
        None \<Rightarrow> False
      | Some t \<Rightarrow> list_ex (\<lambda>r. list_ex (\<lambda>c. r c = Text txt) (columns t)) (rows t))"


section \<open>Example transcripts\<close>

definition ex_env :: env where
  "ex_env =
     \<lparr>group_users =
        [''Bob'' \<mapsto> \<lparr>info_user_id = ''911'', info_avatar = ''bob.png'', info_color = None\<rparr>,
         ''Alice'' \<mapsto> \<lparr>info_user_id = ''912'', info_avatar = ''alice.png'',
                        info_color = Some ''#48ff63''\<rparr>],
      source_exists = (\<lambda>a. a = ''IMG-001.jpg'' \<or> a = ''02/01/23, 10:00 - Alice: hi''),
      basename = (\<lambda>a. a),
      uuid = (\<lambda>k. replicate (Suc k) (CHR ''u''))\<rparr>"

definition bob_at_nine :: "string option \<Rightarrow> string list option \<Rightarrow> message" where
  "bob_at_nine c a =
     \<lparr>msg_id = ''u'', user_id = ''911'', name = ''Bob'', avatar = ''bob.png'', color = None,
      created_timestamp = \<lparr>year = 2023, month = 1, day = 1, hour = 9, minute = 0\<rparr>,
      message_type = ''default'', content = c, format = None, formatted_content = None,
      attachments = a\<rparr>"

definition photo_header :: string where
  "photo_header = ''01/01/23, 09:00 - Bob: IMG-001.jpg (file attached)'' @ nl"

definition caption_line :: string where
  "caption_line = ''nice photo'' @ nl"

definition photo_lines :: "string list" where
  "photo_lines = [photo_header, caption_line]"


definition missing_header :: string where
  "missing_header = ''01/01/23, 09:00 - Bob: see IMG-002.jpg (file attached)'' @ nl"

definition missing_lines :: "string list" where
  "missing_lines = [missing_header, ''01/01/23, 09:01 - Alice: Hello'' @ nl]"

definition echo_lines :: "string list" where
  "echo_lines = [''01/01/23, 09:00 - Bob: 02/01/23, 10:00 - Alice: hi (file attached)'' @ nl,
                 ''02/01/23, 10:00 - Alice: hi'' @ nl]"






definition alice_at_nine :: "string option \<Rightarrow> string option \<Rightarrow> string option \<Rightarrow> message" where
  "alice_at_nine c f fc =
     \<lparr>msg_id = ''u'', user_id = ''912'', name = ''Alice'', avatar = ''alice.png'',
      color = Some ''#48ff63'',
      created_timestamp = \<lparr>year = 2023, month = 1, day = 1, hour = 9, minute = 0\<rparr>,
      message_type = ''default'', content = c, format = f, formatted_content = fc,
      attachments = None\<rparr>"

definition mono_header :: string where
  "mono_header = ''01/01/23, 09:00 - Alice: '' @ backticks @ ''a'' @ nl"

definition mono_line :: string where
  "mono_line = ''_b_'' @ backticks @ nl"


definition uenv_hint :: uenv where
  "uenv_hint = \<lparr>info_users = [''Carol'' \<mapsto> \<lparr>hint_user_id = ''911'', hint_avatar = None,
                                               hint_color = None\<rparr>],
                path_exists = (\<lambda>p. p = ''default.svg''),
                splitext = (\<lambda>p. ''.png''), user_uuid = (\<lambda>k. replicate (Suc k) (CHR ''a''))\<rparr>"

definition carol_lines :: "string list" where
  "carol_lines = [''01/01/23, 09:00 - Carol: Hi'' @ nl]"



definition hi_message :: message where
  "hi_message =
     \<lparr>msg_id = ''u'', user_id = ''912'', name = ''Alice'', avatar = ''alice.png'',
      color = None,
      created_timestamp = \<lparr>year = 2023, month = 1, day = 1, hour = 9, minute = 0\<rparr>,
      message_type = ''default'', content = Some ''_hi_'', format = Some ''whatsapp_markdown'',
      formatted_content = Some ''<em>hi</em>'', attachments = None\<rparr>"

definition hi_db :: db where
  "hi_db = [''messages'' \<mapsto> \<lparr>columns = messages_columns, rows = [message_row ''c'' hi_message]\<rparr>,
            ''message_search'' \<mapsto> \<lparr>columns = [''id'', ''content''], rows = [\<lambda>c. Text ''old'']\<rparr>]"

definition edits_table :: table where
  "edits_table =
     \<lparr>columns = [''id'', ''content'', ''edits'', ''formatted_content''],
      rows = [\<lambda>c. if c = ''id'' then Text ''u'' else if c = ''content'' then Text ''_hi_''
                   else if c = ''formatted_content'' then Text ''<em>hi</em>'' else Null]\<rparr>"

definition edits_db :: db where
  "edits_db = [''messages'' \<mapsto> edits_table]"

section \<open>Properties of the loop\<close>

lemma continue_message_attachments: "attachments (continue_message m l) = attachments m"
  by (simp add: continue_message_def Let_def split: option.splits prod.splits)

lemma header_message_attachments:
  "header_message e c g nxt k = Inr (m, sk) \<Longrightarrow> attachments m = None \<or> (\<exists>a. attachments m = Some [a])"
  by (auto simp: header_message_def Let_def split: prod.splits option.splits sum.splits if_splits)

lemma loop_invariant:
  assumes hd: "\<And>g nxt k m sk. header_message e c g nxt k = Inr (m, sk) \<Longrightarrow> P m"
    and ct: "\<And>m l. P m \<Longrightarrow> P (continue_message m l)"
  shows "loop e c ls st = Inr st' \<Longrightarrow> \<forall>m\<in>set (messages st). P m \<Longrightarrow> \<forall>m\<in>set (messages st'). P m"
proof (induction ls arbitrary: st)
  case Nil
  then show ?case by simp
next
  case (Cons l ls)
  show ?case
  proof (cases "skip st")
    case True
    with Cons.prems have "loop e c ls (st\<lparr>skip := False\<rparr>) = Inr st'" by simp
    from Cons.IH[OF this] Cons.prems(2) show ?thesis by simp
  next
    case ns: False
    show ?thesis
    proof (cases "re_match pattern l")
      case None
      show ?thesis
      proof (cases "messages st = []")
        case True
        with ns None Cons.prems have "loop e c ls st = Inr st'" by simp
        from Cons.IH[OF this] Cons.prems(2) show ?thesis by simp
      next
        case False
        let ?st = "st\<lparr>messages := butlast (messages st) @ [continue_message (last (messages st)) l]\<rparr>"
        from False ns None Cons.prems have run: "loop e c ls ?st = Inr st'" by simp
        have "P (last (messages st))" using False Cons.prems(2) by simp
        then have "P (continue_message (last (messages st)) l)" by (rule ct)
        moreover have "\<forall>m\<in>set (butlast (messages st)). P m"
          using Cons.prems(2) by (auto dest: in_set_butlastD)
        ultimately have "\<forall>m\<in>set (messages ?st). P m" by simp
        from Cons.IH[OF run this] show ?thesis .
      qed
    next
      case (Some g)
      show ?thesis
      proof (cases "header_message e c g (peek ls) (length (messages st))")
        case (Inl err)
        with ns Some Cons.prems show ?thesis by simp
      next
        case (Inr r)
        obtain m sk where r: "r = (m, sk)" by (cases r)
        let ?st = "\<lparr>skip = sk, messages = messages st @ [m]\<rparr>"
        from Inr r ns Some Cons.prems have run: "loop e c ls ?st = Inr st'" by simp
        have "P m" using hd Inr r by blast
        with Cons.prems(2) have "\<forall>m\<in>set (messages ?st). P m" by simp
        from Cons.IH[OF run this] show ?thesis .
      qed
    qed
  qed
qed

text \<open>
  C10.  Every message that \<open>backup_messages\<close> returns has no attachments (\<open>None\<close>) or a
  list of exactly one attachment reference.
\<close>

theorem at_most_one_attachment:
  "backup_messages e c lines = Inr msgs \<Longrightarrow>
   \<forall>m\<in>set msgs. attachments m = None \<or> (\<exists>a. attachments m = Some [a])"
proof -
  assume a: "backup_messages e c lines = Inr msgs"
  then obtain st where st: "loop e c lines \<lparr>skip = False, messages = []\<rparr> = Inr st"
    and msgs: "msgs = messages st"
    by (auto simp: backup_messages_def split: sum.splits)
  have "\<forall>m\<in>set (messages st). attachments m = None \<or> (\<exists>a. attachments m = Some [a])"
    by (rule loop_invariant[where P = "\<lambda>m. attachments m = None \<or> (\<exists>a. attachments m = Some [a])", OF _ _ st])
       (auto dest: header_message_attachments simp: continue_message_attachments)
  with msgs show ?thesis by simp
qed

lemma header_message_skip:
  "header_message e c g nxt k = Inr (m, sk) \<Longrightarrow> sk = (pending (body_of g) nxt \<noteq> None)"
  by (auto simp: header_message_def pending_def Let_def split: prod.splits option.splits sum.splits if_splits)

lemma fst_scan_attachment: "fst (scan_attachment b nxt) = marker_file b"
  by (simp add: scan_attachment_def marker_file_def split: option.splits)

lemma header_message_missing:
  "marker_file (body_of g) = Some a \<Longrightarrow> \<not> source_exists e a \<Longrightarrow>
   header_message e c g nxt k = Inl FileNotFoundError"
  using fst_scan_attachment[of "body_of g" nxt]
  by (auto simp: header_message_def Let_def split: prod.splits)

lemma pending_not_Emitted: "pending b nxt \<noteq> Some Emitted"
  by (simp add: pending_def)

lemma loop_length:
  "loop e c ls st = Inr st' \<Longrightarrow> (p \<noteq> None) = skip st \<Longrightarrow> p \<noteq> Some Emitted \<Longrightarrow>
   length (messages st') = length (messages st) + length (filter (\<lambda>f. f = Emitted) (fates p ls))"
proof (induction ls arbitrary: st p)
  case Nil
  then show ?case by simp
next
  case (Cons l ls)
  show ?case
  proof (cases "skip st")
    case True
    then obtain f where p: "p = Some f" using Cons.prems(2) by auto
    from True Cons.prems have "loop e c ls (st\<lparr>skip := False\<rparr>) = Inr st'" by simp
    from Cons.IH[OF this, of None] have
      "length (messages st') = length (messages st) + length (filter (\<lambda>f. f = Emitted) (fates None ls))"
      by simp
    moreover have "f \<noteq> Emitted" using p Cons.prems(3) by simp
    ultimately show ?thesis using p by simp
  next
    case ns: False
    then have p: "p = None" using Cons.prems(2) by auto
    show ?thesis
    proof (cases "re_match pattern l")
      case None
      show ?thesis
      proof (cases "messages st = []")
        case True
        with ns None Cons.prems have "loop e c ls st = Inr st'" by simp
        from Cons.IH[OF this, of None] ns p None show ?thesis by simp
      next
        case False
        let ?st = "st\<lparr>messages := butlast (messages st) @ [continue_message (last (messages st)) l]\<rparr>"
        from False ns None Cons.prems have run: "loop e c ls ?st = Inr st'" by simp
        from Cons.IH[OF run, of None] ns p None False show ?thesis by simp
      qed
    next
      case (Some g)
      show ?thesis
      proof (cases "header_message e c g (peek ls) (length (messages st))")
        case (Inl err)
        with ns Some Cons.prems show ?thesis by simp
      next
        case (Inr r)
        obtain m sk where r: "r = (m, sk)" by (cases r)
        let ?st = "\<lparr>skip = sk, messages = messages st @ [m]\<rparr>"
        from Inr r ns Some Cons.prems have run: "loop e c ls ?st = Inr st'" by simp
        have sk: "sk = (pending (body_of g) (peek ls) \<noteq> None)"
          using header_message_skip Inr r by blast
        from Cons.IH[OF run, of "pending (body_of g) (peek ls)"] sk p Some pending_not_Emitted
        show ?thesis by simp
      qed
    qed
  qed
qed

lemma pending_Caption:
  "pending b nxt = Some Caption \<Longrightarrow> \<exists>n. nxt = Some n \<and> classify n = Continuation"
  by (auto simp: pending_def scan_attachment_def classify_def split: option.splits if_splits)

lemma fates_length: "length (fates p ls) = length ls"
  by (induction ls arbitrary: p) (auto split: option.splits)

lemma fates_count:
  "p \<in> {None, Some Caption, Some Echo} \<Longrightarrow>
   (p = Some Caption \<longrightarrow> (\<forall>n. peek ls = Some n \<longrightarrow> classify n = Continuation)) \<Longrightarrow>
   length (filter (\<lambda>l. classify l = MessageHeader) ls)
   = length (filter (\<lambda>f. f = Emitted) (fates p ls))
     + length (filter (\<lambda>lf. snd lf = Echo \<and> classify (fst lf) = MessageHeader) (zip ls (fates p ls)))"
proof (induction ls arbitrary: p)
  case Nil
  then show ?case by simp
next
  case (Cons l ls)
  have hdr: "(classify l = MessageHeader) = (re_match pattern l \<noteq> None)"
    by (simp add: classify_def matches_def)
  show ?case
  proof (cases p)
    case None
    show ?thesis
    proof (cases "re_match pattern l")
      case n: None
      from Cons.IH[of None] n None hdr show ?thesis by simp
    next
      case (Some g)
      let ?q = "pending (body_of g) (peek ls)"
      have "?q \<in> {None, Some Caption, Some Echo}"
        by (simp add: pending_def)
      moreover have "?q = Some Caption \<longrightarrow> (\<forall>n. peek ls = Some n \<longrightarrow> classify n = Continuation)"
        using pending_Caption by fastforce
      ultimately show ?thesis using Cons.IH[of ?q] None Some hdr by simp
    qed
  next
    case (Some f)
    have "f = Caption \<longrightarrow> classify l = Continuation"
      using Cons.prems(2) Some by (simp add: peek_def)
    moreover have "f = Caption \<or> f = Echo" using Cons.prems(1) Some by auto
    ultimately show ?thesis using Cons.IH[of None] Some by auto
  qed
qed

text \<open>
  C9 (amended).  When \<open>backup_messages\<close> returns, the number of messages is the number
  of \<open>MessageHeader\<close> lines less the number of \<open>MessageHeader\<close> lines that the loop skips
  because they repeat the file name of the plain attachment marker on the line before.
  Lines merged as captions are not subtracted.
\<close>

theorem message_count:
  "backup_messages e c lines = Inr msgs \<Longrightarrow>
   length msgs + echoed_headers lines = header_count lines"
proof -
  assume a: "backup_messages e c lines = Inr msgs"
  then obtain st where st: "loop e c lines \<lparr>skip = False, messages = []\<rparr> = Inr st"
    and msgs: "msgs = messages st"
    by (auto simp: backup_messages_def split: sum.splits)
  from loop_length[OF st, of None]
  have "length msgs = length (filter (\<lambda>f. f = Emitted) (fates None lines))"
    using msgs by simp
  with fates_count[of None lines] show ?thesis
    by (simp add: echoed_headers_def header_count_def)
qed

lemma loop_missing:
  "(l, Emitted) \<in> set (zip ls (fates p ls)) \<Longrightarrow> re_match pattern l = Some g \<Longrightarrow>
   marker_file (body_of g) = Some a \<Longrightarrow> \<not> source_exists e a \<Longrightarrow>
   (p \<noteq> None) = skip st \<Longrightarrow> p \<noteq> Some Emitted \<Longrightarrow> \<exists>err. loop e c ls st = Inl err"
proof (induction ls arbitrary: st p)
  case Nil
  then show ?case by simp
next
  case (Cons l0 ls)
  show ?case
  proof (cases p)
    case (Some f)
    with Cons.prems have sk: "skip st" and f: "f \<noteq> Emitted" by auto
    from Cons.prems(1) Some f have "(l, Emitted) \<in> set (zip ls (fates None ls))" by auto
    from Cons.IH[OF this Cons.prems(2,3,4), of "st\<lparr>skip := False\<rparr>"] sk show ?thesis by simp
  next
    case None
    with Cons.prems have ns: "\<not> skip st" by simp
    show ?thesis
    proof (cases "re_match pattern l0")
      case n: None
      from Cons.prems(1) None n have in_tl: "(l, Emitted) \<in> set (zip ls (fates None ls))" by auto
      show ?thesis
      proof (cases "messages st = []")
        case True
        from Cons.IH[OF in_tl Cons.prems(2,3,4), of st] ns n True show ?thesis by simp
      next
        case False
        from Cons.IH[OF in_tl Cons.prems(2,3,4),
            of "st\<lparr>messages := butlast (messages st) @ [continue_message (last (messages st)) l0]\<rparr>"]
          ns n False show ?thesis by simp
      qed
    next
      case (Some g0)
      let ?q = "pending (body_of g0) (peek ls)"
      from Cons.prems(1) None Some
      consider "l = l0" | "(l, Emitted) \<in> set (zip ls (fates ?q ls))" by auto
      then show ?thesis
      proof cases
        case 1
        with Some Cons.prems(2) have "g0 = g" by simp
        with header_message_missing[OF Cons.prems(3,4)] ns Some show ?thesis by simp
      next
        case 2
        show ?thesis
        proof (cases "header_message e c g0 (peek ls) (length (messages st))")
          case (Inl err)
          with ns Some show ?thesis by simp
        next
          case (Inr r)
          obtain m sk where r: "r = (m, sk)" by (cases r)
          have sk: "sk = (?q \<noteq> None)" using header_message_skip Inr r by blast
          from Cons.IH[OF 2 Cons.prems(2,3,4), of "\<lparr>skip = sk, messages = messages st @ [m]\<rparr>"]
            sk pending_not_Emitted Inr r ns Some show ?thesis by simp
        qed
      qed
    qed
  qed
qed

text \<open>
  C4 (amended).  When the file named by the attachment marker of a header line that the
  loop reaches does not exist, \<open>backup_messages\<close> ends in an error: it returns no
  message of the transcript at all.
\<close>

theorem missing_attachment_aborts:
  "(l, Emitted) \<in> set (zip lines (fates None lines)) \<Longrightarrow> re_match pattern l = Some g \<Longrightarrow>
   marker_file (body_of g) = Some a \<Longrightarrow> \<not> source_exists e a \<Longrightarrow>
   \<exists>err. backup_messages e c lines = Inl err"
  using loop_missing[of l lines None g a e "\<lparr>skip = False, messages = []\<rparr>" c]
  by (auto simp: backup_messages_def)







section \<open>The properties on the example transcripts\<close>

lemma photo_run:
  "backup_messages ex_env ''c'' photo_lines
   = Inr [bob_at_nine (Some ''nice photo'') (Some [''c/IMG-001.jpg''])]"
  by code_simp



theorem at_most_one_attachment_witness:
  "backup_messages ex_env ''c'' photo_lines
     = Inr [bob_at_nine (Some ''nice photo'') (Some [''c/IMG-001.jpg''])]
   \<and> (attachments (bob_at_nine (Some ''nice photo'') (Some [''c/IMG-001.jpg''])) = None
        \<or> (\<exists>a. attachments (bob_at_nine (Some ''nice photo'') (Some [''c/IMG-001.jpg'']))
                 = Some [a]))"
  using at_most_one_attachment[OF photo_run] photo_run by simp



lemma photo_counts: "header_count photo_lines = 1" "merged_captions photo_lines = 1"
  by code_simp+

theorem message_count_counterexample:
  "length (projr (backup_messages ex_env ''c'' photo_lines))
   \<noteq> header_count photo_lines - merged_captions photo_lines"
  by (simp add: photo_run photo_counts)

lemma echo_run:
  "backup_messages ex_env ''c'' echo_lines
   = Inr [bob_at_nine None (Some [''c/02/01/23, 10:00 - Alice: hi''])]"
  by code_simp

lemma echo_counts: "header_count echo_lines = 2" "echoed_headers echo_lines = 1"
  by code_simp+

theorem message_count_witness:
  "backup_messages ex_env ''c'' echo_lines
     = Inr [bob_at_nine None (Some [''c/02/01/23, 10:00 - Alice: hi''])]
   \<and> header_count echo_lines = 2 \<and> echoed_headers echo_lines = 1
   \<and> length [bob_at_nine None (Some [''c/02/01/23, 10:00 - Alice: hi''])]
       + echoed_headers echo_lines = header_count echo_lines"
  using message_count[OF echo_run] echo_run echo_counts by simp

theorem missing_attachment_counterexample:
  "backup_messages ex_env ''c'' missing_lines = Inl FileNotFoundError"
  by code_simp

theorem missing_attachment_aborts_witness:
  "(missing_header, Emitted) \<in> set (zip missing_lines (fates None missing_lines))
   \<and> marker_file (body_of (the (re_match pattern missing_header))) = Some ''IMG-002.jpg''
   \<and> \<not> source_exists ex_env ''IMG-002.jpg''
   \<and> (\<exists>err. backup_messages ex_env ''c'' missing_lines = Inl err)"
proof -
  have a: "(missing_header, Emitted) \<in> set (zip missing_lines (fates None missing_lines))"
    by code_simp
  have b: "re_match pattern missing_header = Some (the (re_match pattern missing_header))"
    by code_simp
  have c: "marker_file (body_of (the (re_match pattern missing_header))) = Some ''IMG-002.jpg''"
    by code_simp
  have d: "\<not> source_exists ex_env ''IMG-002.jpg''"
    by (simp add: ex_env_def)
  from missing_attachment_aborts[OF a b c d] a c d show ?thesis by blast
qed


section \<open>Continuation lines\<close>












text \<open>
  C3.  The italic pass does not protect a monospace span that runs over a line break:
  a message that opens the span on its header line and closes it on a continuation
  line has \<open>_b_\<close> inside the span rendered as italic, while the same span on one line
  is left alone.
\<close>

theorem monospace_newline_italic:
  "backup_messages ex_env ''c'' [mono_header, mono_line]
     = Inr [alice_at_nine (Some (backticks @ ''a'' @ nl @ ''_b_'' @ backticks))
              (Some ''whatsapp_markdown'') (Some ''<pre>a<br><em>b</em></pre>'')]
   \<and> parse_markdown (backticks @ ''a _b_'' @ backticks) False = ''<pre>a _b_</pre>''"
  by code_simp

section \<open>Properties of the formatter\<close>











lemma in_ms_same:
  "e \<in> set (ms WordB s st) \<Longrightarrow> e = st"
  "e \<in> set (ms Bol s st) \<Longrightarrow> e = st"
  "e \<in> set (ms Eol s st) \<Longrightarrow> e = st"
  "e \<in> set (ms (Ahead r) s st) \<Longrightarrow> e = st"
  by (auto split: if_splits)

lemma in_ms_Cls: "e \<in> set (ms (Cls f) s st) \<Longrightarrow> e = (Suc (fst st), snd st)"
  by (auto split: if_splits)


















section \<open>Properties of the users of a chat\<close>






lemma hinted_key_unchecked:
  "map_sum id (\<lambda>st. (existing_ids st = {''911''}, new_users st ''911''))
     (backup_users uenv_hint Map.empty {''911''} carol_lines [])
   = Inr (True, Some \<lparr>nu_name = ''Carol'', nu_avatar = ''default.svg'', nu_color = None\<rparr>)"
  by code_simp


section \<open>Properties of the search index\<close>

lemma index_step:
  assumes m: "d ''messages'' = Some t" and c: "set cols \<subseteq> set (columns t)"
  shows "(case create_fts5 ''message_search'' cols (drop_table_if_exists ''message_search'' d) of
            Inl err \<Rightarrow> Inl err
          | Inr d' \<Rightarrow> insert_select ''message_search'' cols ''messages'' d')
         = Inr (d(''message_search'' \<mapsto>
              \<lparr>columns = cols,
               rows = map (\<lambda>r c. (case map_of (zip cols cols) c of Some c' \<Rightarrow> r c' | None \<Rightarrow> Null))
                          (rows t)\<rparr>))"
  using assms
  by (simp add: create_fts5_def drop_table_if_exists_def insert_select_def)

text \<open>
  C6 (amended).  Whatever \<open>message_search\<close> was before, \<open>index_messages\<close> succeeds on
  a database whose \<open>messages\<close> table has the columns \<open>id\<close> and \<open>content\<close>, and leaves
  \<open>message_search\<close> with exactly these two columns and one row for each message; the
  index of the Matrix converter has the column \<open>edits\<close> as well.  The column
  \<open>formatted_content\<close> is in neither index.
\<close>

theorem index_rebuilt:
  assumes m: "d ''messages'' = Some t"
    and c: "''id'' \<in> set (columns t)" "''content'' \<in> set (columns t)"
  shows "index_messages d
         = Inr (d(''message_search'' \<mapsto>
              \<lparr>columns = [''id'', ''content''],
               rows = map (\<lambda>r c. if c = ''id'' then r ''id''
                                  else if c = ''content'' then r ''content'' else Null)
                          (rows t)\<rparr>))
       \<and> (''edits'' \<in> set (columns t) \<longrightarrow>
          index_messages_matrix d
          = Inr (d(''message_search'' \<mapsto>
              \<lparr>columns = [''id'', ''content'', ''edits''],
               rows = map (\<lambda>r c. if c = ''id'' then r ''id''
                                  else if c = ''content'' then r ''content''
                                  else if c = ''edits'' then r ''edits'' else Null)
                          (rows t)\<rparr>)))"
proof -
  have a: "set [''id'', ''content''] \<subseteq> set (columns t)" using c by simp
  have r2: "(\<lambda>(r::row) c. (case map_of (zip [''id'', ''content''] [''id'', ''content'']) c of
                    Some c' \<Rightarrow> r c' | None \<Rightarrow> Null))
            = (\<lambda>r c. if c = ''id'' then r ''id'' else if c = ''content'' then r ''content'' else Null)"
    by (intro ext) simp
  have r3: "(\<lambda>(r::row) c. (case map_of (zip [''id'', ''content'', ''edits''] [''id'', ''content'', ''edits'']) c of
                    Some c' \<Rightarrow> r c' | None \<Rightarrow> Null))
            = (\<lambda>r c. if c = ''id'' then r ''id'' else if c = ''content'' then r ''content''
                     else if c = ''edits'' then r ''edits'' else Null)"
    by (intro ext) simp
  have first: "index_messages d
         = Inr (d(''message_search'' \<mapsto>
              \<lparr>columns = [''id'', ''content''],
               rows = map (\<lambda>r c. if c = ''id'' then r ''id''
                                  else if c = ''content'' then r ''content'' else Null)
                          (rows t)\<rparr>))"
    unfolding index_messages_def index_step[of d t "[''id'', ''content'']", OF m a] r2 ..
  have second: "index_messages_matrix d
          = Inr (d(''message_search'' \<mapsto>
              \<lparr>columns = [''id'', ''content'', ''edits''],
               rows = map (\<lambda>r c. if c = ''id'' then r ''id''
                                  else if c = ''content'' then r ''content''
                                  else if c = ''edits'' then r ''edits'' else Null)
                          (rows t)\<rparr>))" if e: "''edits'' \<in> set (columns t)"
  proof -
    have b: "set [''id'', ''content'', ''edits''] \<subseteq> set (columns t)" using c e by simp
    show ?thesis unfolding index_messages_matrix_def index_step[of d t "[''id'', ''content'', ''edits'']", OF m b] r3 ..
  qed
  from first second show ?thesis by blast
qed

theorem formatted_content_not_indexed_counterexample:
  "map_sum id (\<lambda>d. (searchable d ''_hi_'', searchable d ''<em>hi</em>'', searchable d ''old''))
     (index_messages hi_db) = Inr (True, False, False)"
  by code_simp

theorem index_rebuilt_witness:
  "edits_db ''messages'' = Some edits_table
   \<and> ''id'' \<in> set (columns edits_table) \<and> ''content'' \<in> set (columns edits_table)
   \<and> ''edits'' \<in> set (columns edits_table)
   \<and> index_messages edits_db
       = Inr (edits_db(''message_search'' \<mapsto>
              \<lparr>columns = [''id'', ''content''],
               rows = map (\<lambda>r c. if c = ''id'' then r ''id''
                                  else if c = ''content'' then r ''content'' else Null)
                          (rows edits_table)\<rparr>))
   \<and> index_messages_matrix edits_db
       = Inr (edits_db(''message_search'' \<mapsto>
              \<lparr>columns = [''id'', ''content'', ''edits''],
               rows = map (\<lambda>r c. if c = ''id'' then r ''id''
                                  else if c = ''content'' then r ''content''
                                  else if c = ''edits'' then r ''edits'' else Null)
                          (rows edits_table)\<rparr>))"
proof -
  have m: "edits_db ''messages'' = Some edits_table"
    by (simp add: edits_db_def)
  have c: "''id'' \<in> set (columns edits_table)" "''content'' \<in> set (columns edits_table)"
    and e: "''edits'' \<in> set (columns edits_table)"
    by (simp_all add: edits_table_def)
  from index_rebuilt[of edits_db edits_table, OF m c] m c e show ?thesis by blast
qed

end
